theory Spec2Isabelle
  imports Main
begin

section \<open>Error classes of \<open>contentful_management.errors\<close>\<close>

text \<open>
  The module \<open>errors.py\<close> turns an HTTP response into an exception object whose
  message is assembled from the status code, the JSON body and, for one class, a
  header. The development below embeds the module as pure functions: every Python
  exception that can escape is a value of \<open>py_exception\<close>, and a function that may
  raise returns \<open>py_exception + 'a\<close> with \<open>Inl\<close> for the raise.

  Python 3 is assumed throughout (\<open>str\<close> is the text type, \<open>repr\<close> of a string has
  no prefix, \<open>int\<close> accepts underscores). Characters are the code points below 256.
  Floating-point arithmetic plays no part in the module, so a float is kept as the
  text that \<open>repr\<close> prints for it.
\<close>

subsection \<open>Python values and exceptions\<close>

datatype py_exception = JSONDecodeError | AttributeError | KeyError | TypeError | ValueError

text \<open>
  What \<open>response.json()\<close> can return: \<open>None\<close>, a bool, an int, a float, a str, a
  list or a dict. A dict is the list of its items in insertion order; the keys of a
  dict are distinct, and \<open>map_of\<close> is the lookup.
\<close>

datatype pyval =
    VNone
  | VBool bool
  | VInt int
  | VFloat string
  | VStr string
  | VList "pyval list"
  | VDict "(string \<times> pyval) list"

abbreviation NL :: char where "NL \<equiv> CHR 0x0A"
abbreviation TAB :: char where "TAB \<equiv> CHR 0x09"
abbreviation SQ :: char where "SQ \<equiv> CHR 0x27"
abbreviation DQ :: char where "DQ \<equiv> CHR 0x22"
abbreviation BSL :: char where "BSL \<equiv> CHR 0x5C"

definition bindE :: "py_exception + 'a \<Rightarrow> ('a \<Rightarrow> py_exception + 'b) \<Rightarrow> py_exception + 'b" where
  "bindE m f = (case m of Inl e \<Rightarrow> Inl e | Inr x \<Rightarrow> f x)"

text \<open>A list comprehension whose body may raise: the first raise ends it.\<close>

fun mapE :: "('a \<Rightarrow> py_exception + 'b) \<Rightarrow> 'a list \<Rightarrow> py_exception + 'b list" where
  "mapE f [] = Inr []"
| "mapE f (x # xs) =
     (case f x of
        Inl e \<Rightarrow> Inl e
      | Inr y \<Rightarrow> (case mapE f xs of Inl e \<Rightarrow> Inl e | Inr ys \<Rightarrow> Inr (y # ys)))"

subsection \<open>Strings: \<open>join\<close>, \<open>str\<close>, \<open>repr\<close>, \<open>int\<close>, \<open>in\<close>\<close>

text \<open>\<open>sep.join(xs)\<close> on a list of strings.\<close>

fun join :: "string \<Rightarrow> string list \<Rightarrow> string" where
  "join sep [] = []"
| "join sep [x] = x"
| "join sep (x # y # ys) = x @ sep @ join sep (y # ys)"

text \<open>\<open>str(n)\<close> for an int.\<close>

fun digits :: "nat \<Rightarrow> string" where
  "digits n =
     (if n < 10 then [''0123456789'' ! n]
      else digits (n div 10) @ [''0123456789'' ! (n mod 10)])"

declare digits.simps [simp del]

definition str_int :: "int \<Rightarrow> string" where
  "str_int i = (if i < 0 then CHR ''-'' # digits (nat (- i)) else digits (nat i))"

text \<open>
  \<open>repr(s)\<close> for a str: double quotes when the string has a single quote and no
  double quote, single quotes otherwise; the quote and the backslash are escaped,
  tab, newline and carriage return have their letters, and every other character
  that is not printable is written \<open>\xhh\<close>.
\<close>

definition hex2 :: "nat \<Rightarrow> string" where
  "hex2 n = [''0123456789abcdef'' ! (n div 16), ''0123456789abcdef'' ! (n mod 16)]"

definition printable :: "char \<Rightarrow> bool" where
  "printable c =
     (let n = (of_char c :: nat)
      in (32 \<le> n \<and> n < 127) \<or> (161 \<le> n \<and> n \<noteq> 173))"

definition repr_char :: "char \<Rightarrow> char \<Rightarrow> string" where
  "repr_char quote c =
     (if c = quote \<or> c = BSL then [BSL, c]
      else if c = TAB then [BSL, CHR ''t'']
      else if c = NL then [BSL, CHR ''n'']
      else if c = CHR 0x0D then [BSL, CHR ''r'']
      else if printable c then [c]
      else [BSL, CHR ''x''] @ hex2 (of_char c))"

definition repr_str :: "string \<Rightarrow> string" where
  "repr_str s =
     (let quote = (if SQ \<in> set s \<and> DQ \<notin> set s then DQ else SQ)
      in [quote] @ concat (map (repr_char quote) s) @ [quote])"

text \<open>\<open>repr\<close> and \<open>str\<close> of a value; \<open>''{0}''.format(v)\<close> is \<open>str(v)\<close> for these types.\<close>

fun py_repr :: "pyval \<Rightarrow> string" where
  "py_repr VNone = ''None''"
| "py_repr (VBool b) = (if b then ''True'' else ''False'')"
| "py_repr (VInt i) = str_int i"
| "py_repr (VFloat f) = f"
| "py_repr (VStr s) = repr_str s"
| "py_repr (VList xs) = ''['' @ join '', '' (map py_repr xs) @ '']''"
| "py_repr (VDict kvs) =
     ''{'' @ join '', '' (map (\<lambda>kv. repr_str (fst kv) @ '': '' @ py_repr (snd kv)) kvs) @ ''}''"

definition py_str :: "pyval \<Rightarrow> string" where
  "py_str v = (case v of VStr s \<Rightarrow> s | _ \<Rightarrow> py_repr v)"

text \<open>
  \<open>int(s)\<close> for a str: surrounding whitespace is dropped, a sign may lead, then
  decimal digits, where single underscores may stand between digits. Anything else
  raises ValueError.
\<close>

definition is_space :: "char \<Rightarrow> bool" where
  "is_space c = ((of_char c :: nat) \<in> set [9, 10, 11, 12, 13, 28, 29, 30, 31, 32, 133, 160])"

definition strip :: "string \<Rightarrow> string" where
  "strip s = rev (dropWhile is_space (rev (dropWhile is_space s)))"

definition is_digit :: "char \<Rightarrow> bool" where
  "is_digit c = (48 \<le> (of_char c :: nat) \<and> (of_char c :: nat) \<le> 57)"

definition digit_val :: "char \<Rightarrow> nat" where
  "digit_val c = of_char c - 48"

fun parse_digits :: "nat \<Rightarrow> string \<Rightarrow> nat option" where
  "parse_digits acc [] = Some acc"
| "parse_digits acc (c # cs) =
     (if is_digit c then parse_digits (10 * acc + digit_val c) cs
      else if c = CHR ''_'' \<and> cs \<noteq> [] \<and> is_digit (hd cs) then parse_digits acc cs
      else None)"

definition parse_nat :: "string \<Rightarrow> nat option" where
  "parse_nat s =
     (case s of
        [] \<Rightarrow> None
      | c # cs \<Rightarrow> if is_digit c then parse_digits (digit_val c) cs else None)"

definition py_int :: "string \<Rightarrow> py_exception + int" where
  "py_int s =
     (let t = strip s;
          neg = (t \<noteq> [] \<and> hd t = CHR ''-'');
          body = (if t \<noteq> [] \<and> (hd t = CHR ''-'' \<or> hd t = CHR ''+'') then tl t else t)
      in case parse_nat body of
           None \<Rightarrow> Inl ValueError
         | Some n \<Rightarrow> Inr (if neg then - int n else int n))"

text \<open>\<open>k in s\<close> for two strings: \<open>k\<close> occurs in \<open>s\<close> as a substring.\<close>

fun is_substring :: "string \<Rightarrow> string \<Rightarrow> bool" where
  "is_substring k [] = (k = [])"
| "is_substring k (c # cs) = (take (length k) (c # cs) = k \<or> is_substring k cs)"

subsection \<open>Operations on values\<close>

text \<open>
  \<open>v.get(k, None)\<close>: only a dict has the method. \<open>v[k]\<close> with a string \<open>k\<close>: a
  dict looks the key up, every other value raises TypeError. \<open>k in v\<close> with a string
  \<open>k\<close>: keys of a dict, elements of a list, substrings of a str. Iteration: the
  elements of a list, the keys of a dict, the characters of a str.
\<close>

definition py_get :: "pyval \<Rightarrow> string \<Rightarrow> py_exception + pyval" where
  "py_get v k =
     (case v of
        VDict kvs \<Rightarrow> (case map_of kvs k of None \<Rightarrow> Inr VNone | Some x \<Rightarrow> Inr x)
      | _ \<Rightarrow> Inl AttributeError)"

definition py_getitem :: "pyval \<Rightarrow> string \<Rightarrow> py_exception + pyval" where
  "py_getitem v k =
     (case v of
        VDict kvs \<Rightarrow> (case map_of kvs k of None \<Rightarrow> Inl KeyError | Some x \<Rightarrow> Inr x)
      | _ \<Rightarrow> Inl TypeError)"

definition py_contains :: "string \<Rightarrow> pyval \<Rightarrow> py_exception + bool" where
  "py_contains k v =
     (case v of
        VDict kvs \<Rightarrow> Inr (k \<in> set (map fst kvs))
      | VList xs \<Rightarrow> Inr (VStr k \<in> set xs)
      | VStr s \<Rightarrow> Inr (is_substring k s)
      | _ \<Rightarrow> Inl TypeError)"

definition py_iter :: "pyval \<Rightarrow> py_exception + pyval list" where
  "py_iter v =
     (case v of
        VList xs \<Rightarrow> Inr xs
      | VDict kvs \<Rightarrow> Inr (map (\<lambda>kv. VStr (fst kv)) kvs)
      | VStr s \<Rightarrow> Inr (map (\<lambda>c. VStr [c]) s)
      | _ \<Rightarrow> Inl TypeError)"

text \<open>\<open>sep.join(xs)\<close> on values: every item has to be a str.\<close>

fun as_strings :: "pyval list \<Rightarrow> string list option" where
  "as_strings [] = Some []"
| "as_strings (VStr s # vs) = (case as_strings vs of None \<Rightarrow> None | Some ss \<Rightarrow> Some (s # ss))"
| "as_strings (_ # vs) = None"

definition py_join :: "string \<Rightarrow> pyval list \<Rightarrow> py_exception + string" where
  "py_join sep vs = (case as_strings vs of None \<Rightarrow> Inl TypeError | Some ss \<Rightarrow> Inr (join sep ss))"

subsection \<open>The response\<close>

text \<open>
  The response object comes from the transport layer. The module reads its
  \<open>status_code\<close>, its \<open>text\<close>, its \<open>headers\<close> and the result of its \<open>json()\<close>
  method.
\<close>

text \<open>
  Modelled from the spec: the response class is not part of the module. Its
  \<open>json()\<close> method either returns the parsed body or fails with the parse error
  (\<open>json\<close> is \<open>None\<close> then), and its headers are a mapping from string to string
  with case-insensitive lookup: the list of its items, whose keys are distinct also
  when letter case is ignored.
\<close>

record response =
  status_code :: int
  "text" :: string
  headers :: "(string \<times> string) list"
  json :: "pyval option"

text \<open>
  Modelled from the spec: the lookup in the headers, which ignores the letter case
  of the key (of the letters A to Z).
\<close>

definition lower_char :: "char \<Rightarrow> char" where
  "lower_char c =
     (case map_of (zip ''ABCDEFGHIJKLMNOPQRSTUVWXYZ'' ''abcdefghijklmnopqrstuvwxyz'') c of
        Some d \<Rightarrow> d
      | None \<Rightarrow> c)"

definition lower :: "string \<Rightarrow> string" where
  "lower s = map lower_char s"

definition headers_get :: "(string \<times> string) list \<Rightarrow> string \<Rightarrow> string option" where
  "headers_get hs k = map_of (map (\<lambda>kv. (lower (fst kv), snd kv)) hs) (lower k)"

text \<open>
  Modelled from the spec: the call \<open>response.json()\<close>, which raises the parse error
  when the body is not JSON.
\<close>

definition response_json :: "response \<Rightarrow> py_exception + pyval" where
  "response_json r = (case json r of None \<Rightarrow> Inl JSONDecodeError | Some v \<Rightarrow> Inr v)"

text \<open>
  Modelled from the spec: \<open>utils.json_error_class\<close> is not part of the module. It
  names the exception class of a failed JSON parse; an \<open>except\<close> clause with it
  takes that exception and no other that the \<open>try\<close> block can raise.
\<close>

definition json_error_class :: "py_exception \<Rightarrow> bool" where
  "json_error_class e = (e = JSONDecodeError)"

text \<open>
  Modelled from the spec: \<open>utils.string_class\<close> is not part of the module. It names
  the class of strings; \<open>isinstance\<close> with it holds of a str and of nothing else.
\<close>

definition string_class :: "pyval \<Rightarrow> bool" where
  "string_class v = (case v of VStr s \<Rightarrow> True | _ \<Rightarrow> False)"

subsection \<open>The classes and their methods\<close>

datatype error_class =
    HTTPError
  | BadRequestError
  | UnauthorizedError
  | AccessDeniedError
  | NotFoundError
  | VersionMismatchError
  | UnprocessableEntityError
  | RateLimitExceededError
  | ServerError
  | BadGatewayError
  | ServiceUnavailableError

fun default_error_message :: "error_class \<Rightarrow> response \<Rightarrow> string" where
  "default_error_message HTTPError r = ''The following error was received: '' @ text r"
| "default_error_message BadRequestError r =
     ''The request was malformed or missing a required parameter.''"
| "default_error_message UnauthorizedError r = ''The authorization token was invalid.''"
| "default_error_message AccessDeniedError r =
     ''The specified token does not have access to the requested resource.''"
| "default_error_message NotFoundError r =
     ''The requested resource or endpoint could not be found.''"
| "default_error_message VersionMismatchError r =
     ''Version mismatch error. The version you specified was incorrect. This may be due to someone else editing the content.''"
| "default_error_message UnprocessableEntityError r =
     ''The resource you sent in the body is invalid.''"
| "default_error_message RateLimitExceededError r = ''Rate limit exceeded. Too many requests.''"
| "default_error_message ServerError r = ''Internal server error.''"
| "default_error_message BadGatewayError r = ''The requested space is hibernated.''"
| "default_error_message ServiceUnavailableError r =
     ''The request was malformed or missing a required parameter.''"

text \<open>\<open>HTTPError._handle_details\<close>: the base class formats the details with \<open>str\<close>.\<close>

definition HTTPError_handle_details :: "pyval \<Rightarrow> py_exception + string" where
  "HTTPError_handle_details details = Inr (py_str details)"

text \<open>\<open>BadRequestError._handle_details\<close> and its inner \<open>_handle_detail\<close>.\<close>

definition handle_detail :: "pyval \<Rightarrow> py_exception + pyval" where
  "handle_detail detail = (if string_class detail then Inr detail else py_get detail ''details'')"

definition BadRequestError_handle_details :: "pyval \<Rightarrow> py_exception + string" where
  "BadRequestError_handle_details details =
     (if string_class details then Inr (py_str details)
      else bindE (py_contains ''errors'' details) (\<lambda>has_errors.
        if has_errors then
          bindE (py_getitem details ''errors'') (\<lambda>errs.
          bindE (py_iter errs) (\<lambda>items.
          bindE (mapE handle_detail items) (\<lambda>inner_details.
          py_join [NL, TAB] (filter (\<lambda>detail. detail \<noteq> VNone) inner_details))))
        else Inr (py_str details)))"

text \<open>\<open>AccessDeniedError._handle_details\<close>.\<close>

definition AccessDeniedError_handle_details :: "pyval \<Rightarrow> py_exception + string" where
  "AccessDeniedError_handle_details details =
     bindE (py_getitem details ''reasons'') (\<lambda>reasons.
     bindE (py_iter reasons) (\<lambda>items.
     bindE (py_join [NL, TAB, TAB] items) (\<lambda>joined.
     Inr ([NL, TAB] @ ''Reasons:'' @ [NL, TAB, TAB] @ joined))))"

text \<open>\<open>NotFoundError._handle_details\<close>.\<close>

definition NotFoundError_handle_details :: "pyval \<Rightarrow> py_exception + string" where
  "NotFoundError_handle_details details =
     (if string_class details then Inr (py_str details)
      else bindE (py_getitem details ''type'') (\<lambda>ty.
        let message = ''The requested '' @ py_str ty @ '' could not be found.''
        in bindE (py_get details ''id'') (\<lambda>resource_id.
          if resource_id \<noteq> VNone then Inr (message @ '' ID: '' @ py_str resource_id @ ''.'')
          else Inr message)))"

text \<open>\<open>UnprocessableEntityError._handle_error\<close> and \<open>_handle_details\<close>.\<close>

definition handle_error :: "response \<Rightarrow> pyval \<Rightarrow> py_exception + string" where
  "handle_error r error =
     bindE (bindE (py_contains ''name'' error) (\<lambda>has_name.
              if has_name then py_contains ''path'' error else Inr False)) (\<lambda>named.
     bindE (if named then
              bindE (py_getitem error ''name'') (\<lambda>name.
              bindE (py_getitem error ''path'') (\<lambda>path.
              Inr ([TAB] @ ''* Name: '' @ py_str name @ '' - Path: '' @ [SQ] @ py_str path @ [SQ])))
            else Inr (default_error_message UnprocessableEntityError r)) (\<lambda>message.
     bindE (py_contains ''value'' error) (\<lambda>has_value.
       if has_value then
         bindE (py_getitem error ''value'') (\<lambda>val.
         Inr (message @ '' - Value: '' @ [SQ] @ py_str val @ [SQ]))
       else Inr message)))"

definition UnprocessableEntityError_handle_details ::
    "response \<Rightarrow> pyval \<Rightarrow> py_exception + string" where
  "UnprocessableEntityError_handle_details r details =
     bindE (py_getitem details ''errors'') (\<lambda>errs.
     bindE (py_iter errs) (\<lambda>items.
     bindE (mapE (handle_error r) items) (\<lambda>errors.
     Inr ([NL] @ join [NL] errors))))"

text \<open>Method dispatch: a class without its own \<open>_handle_details\<close> inherits the base one.\<close>

fun handle_details :: "error_class \<Rightarrow> response \<Rightarrow> pyval \<Rightarrow> py_exception + string" where
  "handle_details BadRequestError r details = BadRequestError_handle_details details"
| "handle_details AccessDeniedError r details = AccessDeniedError_handle_details details"
| "handle_details NotFoundError r details = NotFoundError_handle_details details"
| "handle_details UnprocessableEntityError r details =
     UnprocessableEntityError_handle_details r details"
| "handle_details _ r details = HTTPError_handle_details details"

text \<open>The rate-limit header and the methods of \<open>RateLimitExceededError\<close> that read it.\<close>

definition RATE_LIMIT_RESET_HEADER_KEY :: string where
  "RATE_LIMIT_RESET_HEADER_KEY = ''x-contentful-ratelimit-reset''"

definition has_reset_time :: "response \<Rightarrow> bool" where
  "has_reset_time r = (headers_get (headers r) RATE_LIMIT_RESET_HEADER_KEY \<noteq> None)"

definition response_reset_time :: "response \<Rightarrow> py_exception + int" where
  "response_reset_time r =
     (case headers_get (headers r) RATE_LIMIT_RESET_HEADER_KEY of
        None \<Rightarrow> Inl KeyError
      | Some v \<Rightarrow> py_int v)"

fun has_additional_error_info :: "error_class \<Rightarrow> response \<Rightarrow> bool" where
  "has_additional_error_info RateLimitExceededError r = has_reset_time r"
| "has_additional_error_info _ r = False"

fun additional_error_info :: "error_class \<Rightarrow> response \<Rightarrow> py_exception + string list" where
  "additional_error_info RateLimitExceededError r =
     bindE (response_reset_time r) (\<lambda>t. Inr [''Time until reset (seconds): '' @ str_int t])"
| "additional_error_info _ r = Inr []"

subsection \<open>Composing the message\<close>

text \<open>
  The body of the \<open>try\<close> statement of \<open>_best_available_message\<close>. It appends to the
  list \<open>error_message\<close> as it goes, so it returns the list as it stands when the
  block ends, together with the exception that ended it, if one did.
\<close>

definition try_body ::
    "error_class \<Rightarrow> response \<Rightarrow> string list \<Rightarrow> string list \<times> py_exception option" where
  "try_body cls r error_message =
     (case response_json r of
        Inl e \<Rightarrow> (error_message, Some e)
      | Inr body \<Rightarrow>
     (case py_get body ''message'' of
        Inl e \<Rightarrow> (error_message, Some e)
      | Inr message \<Rightarrow>
     (case py_get body ''details'' of
        Inl e \<Rightarrow> (error_message, Some e)
      | Inr details \<Rightarrow>
     (case py_get body ''requestId'' of
        Inl e \<Rightarrow> (error_message, Some e)
      | Inr request_id \<Rightarrow>
        let em1 = error_message @
              [''Message: '' @
                 (if message \<noteq> VNone then py_str message else default_error_message cls r)]
        in (case (if details \<noteq> VNone
                  then bindE (handle_details cls r details) (\<lambda>d. Inr [''Details: '' @ d])
                  else Inr []) of
              Inl e \<Rightarrow> (em1, Some e)
            | Inr details_line \<Rightarrow>
                (em1 @ details_line @
                   (if request_id \<noteq> VNone then [''Request ID: '' @ py_str request_id] else []),
                 None))))))"

text \<open>
  The whole \<open>try\<close> statement: its handler takes the JSON parse error and appends
  the default message to the list as the block left it; any other exception goes
  on to the caller.
\<close>

definition try_statement ::
    "error_class \<Rightarrow> response \<Rightarrow> string list \<Rightarrow> py_exception + string list" where
  "try_statement cls r error_message =
     (let tried = try_body cls r error_message
      in case snd tried of
           None \<Rightarrow> Inr (fst tried)
         | Some e \<Rightarrow>
             if json_error_class e
             then Inr (fst tried @ [''Message: '' @ default_error_message cls r])
             else Inl e)"

text \<open>
  \<open>HTTPError._best_available_message\<close>: the status line, the \<open>try\<close> statement, the
  additional lines, and the join.
\<close>

definition best_available_message :: "error_class \<Rightarrow> response \<Rightarrow> py_exception + string" where
  "best_available_message cls r =
     bindE (try_statement cls r [''HTTP status code: '' @ str_int (status_code r)])
       (\<lambda>error_message.
     bindE (if has_additional_error_info cls r
            then bindE (additional_error_info cls r) (\<lambda>extra. Inr (error_message @ extra))
            else Inr error_message) (\<lambda>error_message.
     Inr (join [NL] error_message)))"

subsection \<open>The error object and \<open>get_error\<close>\<close>

text \<open>
  An instance of one of the classes: its class, the attributes \<open>response\<close> and
  \<open>status_code\<close> that \<open>__init__\<close> sets, and the message handed to \<open>Exception\<close>.
\<close>

record api_error =
  err_class :: error_class
  err_response :: response
  err_status_code :: int
  err_message :: string

text \<open>\<open>HTTPError.__init__\<close>, run for an instance of class \<open>cls\<close>.\<close>

definition init :: "error_class \<Rightarrow> response \<Rightarrow> py_exception + api_error" where
  "init cls r =
     bindE (best_available_message cls r) (\<lambda>message.
     Inr \<lparr>err_class = cls, err_response = r, err_status_code = status_code r,
          err_message = message\<rparr>)"

text \<open>
  \<open>RateLimitExceededError.reset_time\<close> on an error object; the other classes have
  no such attribute.
\<close>

definition reset_time :: "api_error \<Rightarrow> py_exception + int" where
  "reset_time e =
     (if err_class e = RateLimitExceededError then response_reset_time (err_response e)
      else Inl AttributeError)"

definition errors :: "(int \<times> error_class) list" where
  "errors =
     [(400, BadRequestError),
      (401, UnauthorizedError),
      (403, AccessDeniedError),
      (404, NotFoundError),
      (409, VersionMismatchError),
      (422, UnprocessableEntityError),
      (429, RateLimitExceededError),
      (500, ServerError),
      (502, BadGatewayError),
      (503, ServiceUnavailableError)]"

definition select_class :: "int \<Rightarrow> error_class" where
  "select_class code = (case map_of errors code of Some cls \<Rightarrow> cls | None \<Rightarrow> HTTPError)"

definition get_error :: "response \<Rightarrow> py_exception + api_error" where
  "get_error r = init (select_class (status_code r)) r"

subsection \<open>Notions used to state the results\<close>

text \<open>
  For a response whose body parsed to the mapping \<open>kvs\<close>: the text of the
  \<open>Message\<close> line, the \<open>Request ID\<close> line if there is one, and the whole message
  when the \<open>Details\<close> text is \<open>details_text\<close> and no additional line follows.
\<close>

definition message_text :: "error_class \<Rightarrow> response \<Rightarrow> (string \<times> pyval) list \<Rightarrow> string" where
  "message_text cls r kvs =
     (case map_of kvs ''message'' of
        None \<Rightarrow> default_error_message cls r
      | Some m \<Rightarrow> if m \<noteq> VNone then py_str m else default_error_message cls r)"

definition request_id_lines :: "(string \<times> pyval) list \<Rightarrow> string list" where
  "request_id_lines kvs =
     (case map_of kvs ''requestId'' of
        None \<Rightarrow> []
      | Some i \<Rightarrow> if i \<noteq> VNone then [''Request ID: '' @ py_str i] else [])"

definition message_with_details ::
    "error_class \<Rightarrow> response \<Rightarrow> (string \<times> pyval) list \<Rightarrow> string \<Rightarrow> string" where
  "message_with_details cls r kvs details_text =
     join [NL]
       ([''HTTP status code: '' @ str_int (status_code r),
         ''Message: '' @ message_text cls r kvs,
         ''Details: '' @ details_text] @ request_id_lines kvs)"

text \<open>
  The detail formats in the words of the specification, to be compared with the
  methods above. \<open>spec_error_line\<close> is the line of one entry of a 422 \<open>errors\<close>
  list that is a mapping, and \<open>mapping_entries\<close> takes a list apart whose entries
  are all mappings. \<open>spec_detail_texts\<close> collects the texts of a 400 \<open>errors\<close>
  list: a string entry stands for itself, a mapping contributes its \<open>details\<close>
  sub-field when that is a string and is skipped when the sub-field is absent or
  \<open>None\<close>; the result is \<open>None\<close> for a list with an entry of any other shape.
\<close>

definition spec_error_line :: "(string \<times> pyval) list \<Rightarrow> string" where
  "spec_error_line entry =
     (case (map_of entry ''name'', map_of entry ''path'') of
        (Some name, Some path) \<Rightarrow>
          [TAB] @ ''* Name: '' @ py_str name @ '' - Path: '' @ [SQ] @ py_str path @ [SQ]
      | _ \<Rightarrow> ''The resource you sent in the body is invalid.'') @
     (case map_of entry ''value'' of
        Some val \<Rightarrow> '' - Value: '' @ [SQ] @ py_str val @ [SQ]
      | None \<Rightarrow> [])"

fun mapping_entries :: "pyval list \<Rightarrow> (string \<times> pyval) list list option" where
  "mapping_entries [] = Some []"
| "mapping_entries (VDict entry # vs) =
     (case mapping_entries vs of None \<Rightarrow> None | Some es \<Rightarrow> Some (entry # es))"
| "mapping_entries (_ # vs) = None"

fun spec_detail_texts :: "pyval list \<Rightarrow> string list option" where
  "spec_detail_texts [] = Some []"
| "spec_detail_texts (VStr s # vs) =
     (case spec_detail_texts vs of None \<Rightarrow> None | Some ts \<Rightarrow> Some (s # ts))"
| "spec_detail_texts (VDict entry # vs) =
     (case map_of entry ''details'' of
        None \<Rightarrow> spec_detail_texts vs
      | Some VNone \<Rightarrow> spec_detail_texts vs
      | Some (VStr t) \<Rightarrow>
          (case spec_detail_texts vs of None \<Rightarrow> None | Some ts \<Rightarrow> Some (t # ts))
      | Some _ \<Rightarrow> None)"
| "spec_detail_texts (_ # vs) = None"


section \<open>Properties\<close>

subsection \<open>Auxiliary facts\<close>



lemma py_get_non_mapping:
  "\<forall>kvs. v \<noteq> VDict kvs \<Longrightarrow> py_get v k = Inl AttributeError"
  by (cases v) (simp_all add: py_get_def)

lemma try_statement_non_mapping:
  assumes "json r = Some v" and "\<forall>kvs. v \<noteq> VDict kvs"
  shows "try_statement cls r em = Inl AttributeError"
  using assms
  by (simp add: try_statement_def try_body_def response_json_def py_get_non_mapping
      json_error_class_def)

lemma select_class_cases:
  "select_class code =
     (if code = 400 then BadRequestError
      else if code = 401 then UnauthorizedError
      else if code = 403 then AccessDeniedError
      else if code = 404 then NotFoundError
      else if code = 409 then VersionMismatchError
      else if code = 422 then UnprocessableEntityError
      else if code = 429 then RateLimitExceededError
      else if code = 500 then ServerError
      else if code = 502 then BadGatewayError
      else if code = 503 then ServiceUnavailableError
      else HTTPError)"
  by (simp add: select_class_def errors_def)

lemma get_error_attributes:
  "get_error r = Inr e \<Longrightarrow>
   err_class e = select_class (status_code r) \<and> err_response e = r \<and>
   err_status_code e = status_code r"
  by (auto simp: get_error_def init_def bindE_def split: sum.splits)

lemma has_additional_error_info_select:
  "has_additional_error_info (select_class code) r = (code = 429 \<and> has_reset_time r)"
  by (simp add: select_class_cases)


lemma try_statement_lines:
  assumes "try_statement cls r em0 = Inr em"
  shows "\<exists>m rest. em = em0 @ (''Message: '' @ m) # rest \<and>
           ((json r = None \<or> (\<exists>kvs. json r = Some (VDict kvs) \<and> map_of kvs ''message'' = None))
              \<longrightarrow> m = default_error_message cls r)"
  using assms
  by (auto simp: try_statement_def try_body_def response_json_def py_get_def bindE_def Let_def
      json_error_class_def
      split: sum.splits option.splits pyval.splits if_splits)

lemma try_statement_nonempty:
  "try_statement cls r em0 = Inr em \<Longrightarrow> em \<noteq> []"
  using try_statement_lines [of cls r em0 em] by auto

lemma best_available_message_lines:
  assumes "best_available_message cls r = Inr msg"
  shows "\<exists>em extra. try_statement cls r [''HTTP status code: '' @ str_int (status_code r)] = Inr em \<and>
           msg = join [NL] (em @ extra) \<and>
           (\<not> has_additional_error_info cls r \<longrightarrow> extra = [])"
  using assms
  by (auto simp: best_available_message_def bindE_def split: sum.splits if_splits)

lemma join_snoc: "xs \<noteq> [] \<Longrightarrow> join sep (xs @ [x]) = join sep xs @ sep @ x"
  by (induction sep xs rule: join.induct) auto

lemma init_message:
  "init cls r = Inr e \<Longrightarrow> best_available_message cls r = Inr (err_message e) \<and> err_class e = cls"
  by (auto simp: init_def bindE_def split: sum.splits)



lemma try_statement_details:
  assumes "json r = Some (VDict kvs)" and "map_of kvs ''details'' = Some details"
    and "details \<noteq> VNone"
  shows "try_statement cls r em =
     (case handle_details cls r details of
        Inl x \<Rightarrow> if json_error_class x
                 then Inr (em @ [''Message: '' @ message_text cls r kvs,
                                 ''Message: '' @ default_error_message cls r])
                 else Inl x
      | Inr t \<Rightarrow> Inr (em @ [''Message: '' @ message_text cls r kvs, ''Details: '' @ t] @
                       request_id_lines kvs))"
  using assms
  by (simp add: try_statement_def try_body_def response_json_def py_get_def bindE_def
      message_text_def request_id_lines_def split: sum.splits option.splits)


lemma get_error_details_text:
  assumes "json r = Some (VDict kvs)" and "map_of kvs ''details'' = Some details"
    and "details \<noteq> VNone"
    and "handle_details (select_class (status_code r)) r details = Inr t"
    and "status_code r \<noteq> 429"
  shows "get_error r =
     Inr \<lparr>err_class = select_class (status_code r), err_response = r,
          err_status_code = status_code r,
          err_message = join [NL]
            ([''HTTP status code: '' @ str_int (status_code r),
              ''Message: '' @ message_text (select_class (status_code r)) r kvs,
              ''Details: '' @ t] @ request_id_lines kvs)\<rparr>"
  using assms
  by (simp add: get_error_def init_def best_available_message_def try_statement_details
      bindE_def has_additional_error_info_select)

lemma get_error_details_message:
  assumes "json r = Some (VDict kvs)" and "map_of kvs ''details'' = Some details"
    and "details \<noteq> VNone"
    and "handle_details (select_class (status_code r)) r details = Inr t"
    and "status_code r \<noteq> 429"
  shows "get_error r =
     Inr \<lparr>err_class = select_class (status_code r), err_response = r,
          err_status_code = status_code r,
          err_message = message_with_details (select_class (status_code r)) r kvs t\<rparr>"
  using get_error_details_text [OF assms] by (simp add: message_with_details_def)

lemma py_contains_mapping: "py_contains k (VDict f) = Inr (map_of f k \<noteq> None)"
  by (simp add: py_contains_def map_of_eq_None_iff)

lemma handle_error_mapping: "handle_error r (VDict f) = Inr (spec_error_line f)"
  by (auto simp: handle_error_def spec_error_line_def py_contains_mapping py_getitem_def bindE_def
      split: option.splits)

lemma mapE_handle_error:
  "mapping_entries es = Some fs \<Longrightarrow> mapE (handle_error r) es = Inr (map spec_error_line fs)"
proof (induction es arbitrary: fs rule: mapping_entries.induct)
  case 1
  then show ?case by simp
next
  case (2 entry vs)
  then show ?case
    by (auto simp: handle_error_mapping split: option.splits)
qed simp_all

lemma handle_detail_simps:
  "handle_detail (VStr s) = Inr (VStr s)"
  "handle_detail (VDict entry) =
     Inr (case map_of entry ''details'' of None \<Rightarrow> VNone | Some x \<Rightarrow> x)"
  by (simp_all add: handle_detail_def string_class_def py_get_def split: option.splits)

lemma mapE_handle_detail:
  "spec_detail_texts es = Some ts \<Longrightarrow>
   \<exists>inner. mapE handle_detail es = Inr inner \<and>
     as_strings (filter (\<lambda>detail. detail \<noteq> VNone) inner) = Some ts"
proof (induction es arbitrary: ts)
  case Nil
  then show ?case by simp
next
  case (Cons e es)
  show ?case
  proof (cases e)
    case (VStr s)
    with Cons.prems obtain ts' where rest: "spec_detail_texts es = Some ts'" and ts: "ts = s # ts'"
      by (auto split: option.splits)
    from Cons.IH [OF rest] VStr ts show ?thesis
      by (auto simp: handle_detail_simps)
  next
    case (VDict entry)
    show ?thesis
    proof (cases "map_of entry ''details''")
      case None
      with Cons.prems VDict have "spec_detail_texts es = Some ts"
        by simp
      from Cons.IH [OF this] VDict None show ?thesis
        by (auto simp: handle_detail_simps)
    next
      case (Some x)
      show ?thesis
      proof (cases x)
        case VNone
        with Cons.prems VDict Some have "spec_detail_texts es = Some ts"
          by simp
        from Cons.IH [OF this] VDict Some VNone show ?thesis
          by (auto simp: handle_detail_simps)
      next
        case (VStr t)
        with Cons.prems VDict Some obtain ts'
          where rest: "spec_detail_texts es = Some ts'" and ts: "ts = t # ts'"
          by (auto split: option.splits)
        from Cons.IH [OF rest] VDict Some VStr ts show ?thesis
          by (auto simp: handle_detail_simps)
      qed (use Cons.prems VDict Some in simp_all)
    qed
  qed (use Cons.prems in simp_all)
qed






lemma try_statement_base_class:
  assumes "json r = None \<or> (\<exists>kvs. json r = Some (VDict kvs))"
  shows "\<exists>em'. try_statement RateLimitExceededError r em = Inr em'"
  using assms
  by (auto simp: try_statement_def try_body_def response_json_def py_get_def bindE_def
      HTTPError_handle_details_def json_error_class_def Let_def
      split: option.splits if_splits)

lemma rate_limited_returns:
  assumes "status_code r = 429"
    and "json r = None \<or> (\<exists>kvs. json r = Some (VDict kvs))"
    and "headers_get (headers r) RATE_LIMIT_RESET_HEADER_KEY = Some ''5'' \<or>
         headers_get (headers r) RATE_LIMIT_RESET_HEADER_KEY = None"
  shows "\<exists>e. get_error r = Inr e"
proof -
  have five: "py_int ''5'' = Inr 5"
    by code_simp
  from try_statement_base_class [OF assms(2)] obtain em
    where "try_statement RateLimitExceededError r
             [''HTTP status code: '' @ str_int (status_code r)] = Inr em"
    by blast
  with assms(1,3) five show ?thesis
    by (auto simp: get_error_def select_class_cases init_def best_available_message_def
        has_reset_time_def response_reset_time_def bindE_def)
qed

lemma rate_limit_built:
  assumes "status_code r = 429" and "get_error r = Inr e"
  shows "err_class e = RateLimitExceededError \<and>
    (headers_get (headers r) RATE_LIMIT_RESET_HEADER_KEY = Some ''5'' \<longrightarrow>
       reset_time e = Inr 5 \<and>
       (\<exists>before. err_message e = before @ [NL] @ ''Time until reset (seconds): 5'')) \<and>
    (headers_get (headers r) RATE_LIMIT_RESET_HEADER_KEY = None \<longrightarrow>
       reset_time e = Inl KeyError \<and>
       (\<exists>em. try_statement RateLimitExceededError r
                [''HTTP status code: '' @ str_int (status_code r)] = Inr em \<and>
             err_message e = join [NL] em))"
proof -
  let ?status = "''HTTP status code: '' @ str_int (status_code r)"
  from assms have cls: "err_class e = RateLimitExceededError" and resp: "err_response e = r"
    by (simp_all add: get_error_attributes select_class_cases)
  from assms have msg: "best_available_message RateLimitExceededError r = Inr (err_message e)"
    by (simp add: get_error_def select_class_cases init_message)
  have present: "reset_time e = Inr 5 \<and>
      (\<exists>before. err_message e = before @ [NL] @ ''Time until reset (seconds): 5'')"
    if hdr: "headers_get (headers r) RATE_LIMIT_RESET_HEADER_KEY = Some ''5''"
  proof -
    have five: "py_int ''5'' = Inr 5" "str_int 5 = ''5''"
      by code_simp+
    with hdr cls resp have "reset_time e = Inr 5"
      by (simp add: reset_time_def response_reset_time_def)
    moreover from msg hdr five obtain em
      where "try_statement RateLimitExceededError r [?status] = Inr em"
        and "err_message e = join [NL] (em @ [''Time until reset (seconds): 5''])"
      by (auto simp: best_available_message_def bindE_def has_reset_time_def
          response_reset_time_def split: sum.splits)
    then have "err_message e = join [NL] em @ [NL] @ ''Time until reset (seconds): 5''"
      by (simp add: join_snoc try_statement_nonempty)
    ultimately show ?thesis
      by blast
  qed
  have absent: "reset_time e = Inl KeyError \<and>
      (\<exists>em. try_statement RateLimitExceededError r [?status] = Inr em \<and>
            err_message e = join [NL] em)"
    if hdr: "headers_get (headers r) RATE_LIMIT_RESET_HEADER_KEY = None"
  proof -
    from hdr cls resp have "reset_time e = Inl KeyError"
      by (simp add: reset_time_def response_reset_time_def)
    moreover from msg hdr
    have "\<exists>em. try_statement RateLimitExceededError r [?status] = Inr em \<and>
            err_message e = join [NL] em"
      by (auto simp: best_available_message_def bindE_def has_reset_time_def split: sum.splits)
    ultimately show ?thesis
      by blast
  qed
  from cls present absent show ?thesis
    by blast
qed

subsection \<open>When \<open>get_error\<close> returns and when it raises\<close>




subsection \<open>The message always has its first two lines\<close>

text \<open>
  Claim C2. Whenever \<open>get_error\<close> returns an error object, its message is not
  empty: it is the join by newline of a list of lines whose first line is
  \<open>HTTP status code: \<close> followed by the response's status code and whose second
  line is a \<open>Message: \<close> line. When the body did not parse, or parsed to a mapping
  without the key \<open>message\<close>, that second line carries the default message of the
  error's class.
\<close>

theorem message_never_empty:
  assumes "get_error r = Inr e"
  shows "err_message e \<noteq> [] \<and>
    (\<exists>m rest.
       err_message e =
         join [NL] ((''HTTP status code: '' @ str_int (status_code r)) # (''Message: '' @ m) # rest) \<and>
       (json r = None \<or> (\<exists>kvs. json r = Some (VDict kvs) \<and> map_of kvs ''message'' = None)
          \<longrightarrow> m = default_error_message (err_class e) r))"
proof -
  let ?cls = "select_class (status_code r)"
  let ?status = "''HTTP status code: '' @ str_int (status_code r)"
  from assms have msg: "best_available_message ?cls r = Inr (err_message e)"
    and cls: "err_class e = ?cls"
    by (simp_all add: get_error_def init_message)
  from best_available_message_lines [OF msg] obtain em extra
    where em: "try_statement ?cls r [?status] = Inr em"
      and joined: "err_message e = join [NL] (em @ extra)"
    by blast
  from try_statement_lines [OF em] obtain m rest
    where shape: "em = [?status] @ (''Message: '' @ m) # rest"
      and dflt: "json r = None \<or> (\<exists>kvs. json r = Some (VDict kvs) \<and> map_of kvs ''message'' = None)
                   \<longrightarrow> m = default_error_message ?cls r"
    by blast
  from joined shape
  have whole: "err_message e = join [NL] (?status # (''Message: '' @ m) # (rest @ extra))"
    by simp
  then have nonempty: "err_message e \<noteq> []"
    by simp
  have "\<exists>m rest.
       err_message e =
         join [NL] ((''HTTP status code: '' @ str_int (status_code r)) # (''Message: '' @ m) # rest) \<and>
       (json r = None \<or> (\<exists>kvs. json r = Some (VDict kvs) \<and> map_of kvs ''message'' = None)
          \<longrightarrow> m = default_error_message (err_class e) r)"
    unfolding cls using whole dflt by (intro exI [of _ m] exI [of _ "rest @ extra"] conjI)
  with nonempty show ?thesis ..
qed

theorem message_never_empty_witness:
  "get_error \<lparr>status_code = 500, text = ''failure'', headers = [], json = None\<rparr> =
     Inr \<lparr>err_class = ServerError,
          err_response = \<lparr>status_code = 500, text = ''failure'', headers = [], json = None\<rparr>,
          err_status_code = 500,
          err_message = ''HTTP status code: 500'' @ [NL] @ ''Message: Internal server error.''\<rparr> \<and>
   ''HTTP status code: 500'' @ [NL] @ ''Message: Internal server error.'' \<noteq> []"
proof -
  let ?r = "\<lparr>status_code = 500, text = ''failure'', headers = [], json = None\<rparr>"
  let ?e = "\<lparr>err_class = ServerError, err_response = ?r, err_status_code = 500,
             err_message = ''HTTP status code: 500'' @ [NL] @ ''Message: Internal server error.''\<rparr>"
  have run: "get_error ?r = Inr ?e"
    by code_simp
  from message_never_empty [OF run] have "err_message ?e \<noteq> []"
    by (rule conjunct1)
  with run show ?thesis
    by simp
qed

subsection \<open>The registry of status codes\<close>

text \<open>
  Claim C3. The class is chosen by looking the status code up in the table: the ten
  codes 400, 401, 403, 404, 409, 422, 429, 500, 502 and 503 have their own classes,
  every other code (a 2xx code too) gets the base class \<open>HTTPError\<close> and no code of
  the ten does, an error object that \<open>get_error\<close> returns has the class chosen
  for the response's status code, and each class has its default message.
\<close>

theorem status_code_registry:
  "select_class 400 = BadRequestError \<and>
   select_class 401 = UnauthorizedError \<and>
   select_class 403 = AccessDeniedError \<and>
   select_class 404 = NotFoundError \<and>
   select_class 409 = VersionMismatchError \<and>
   select_class 422 = UnprocessableEntityError \<and>
   select_class 429 = RateLimitExceededError \<and>
   select_class 500 = ServerError \<and>
   select_class 502 = BadGatewayError \<and>
   select_class 503 = ServiceUnavailableError \<and>
   (select_class code = HTTPError) = (code \<notin> {400, 401, 403, 404, 409, 422, 429, 500, 502, 503}) \<and>
   (get_error r = Inr e \<longrightarrow> err_class e = select_class (status_code r)) \<and>
   default_error_message BadRequestError r =
     ''The request was malformed or missing a required parameter.'' \<and>
   default_error_message UnauthorizedError r = ''The authorization token was invalid.'' \<and>
   default_error_message AccessDeniedError r =
     ''The specified token does not have access to the requested resource.'' \<and>
   default_error_message NotFoundError r =
     ''The requested resource or endpoint could not be found.'' \<and>
   default_error_message VersionMismatchError r =
     ''Version mismatch error. The version you specified was incorrect. This may be due to someone else editing the content.'' \<and>
   default_error_message UnprocessableEntityError r =
     ''The resource you sent in the body is invalid.'' \<and>
   default_error_message RateLimitExceededError r = ''Rate limit exceeded. Too many requests.'' \<and>
   default_error_message ServerError r = ''Internal server error.'' \<and>
   default_error_message BadGatewayError r = ''The requested space is hibernated.'' \<and>
   default_error_message ServiceUnavailableError r =
     ''The request was malformed or missing a required parameter.'' \<and>
   default_error_message HTTPError r = ''The following error was received: '' @ text r"
proof -
  have table: "select_class 400 = BadRequestError" "select_class 401 = UnauthorizedError"
    "select_class 403 = AccessDeniedError" "select_class 404 = NotFoundError"
    "select_class 409 = VersionMismatchError" "select_class 422 = UnprocessableEntityError"
    "select_class 429 = RateLimitExceededError" "select_class 500 = ServerError"
    "select_class 502 = BadGatewayError" "select_class 503 = ServiceUnavailableError"
    by (simp_all add: select_class_cases)
  have other: "(select_class code = HTTPError) =
      (code \<notin> {400, 401, 403, 404, 409, 422, 429, 500, 502, 503})"
    by (simp add: select_class_cases)
  have built: "get_error r = Inr e \<longrightarrow> err_class e = select_class (status_code r)"
    by (simp add: get_error_attributes)
  from table other built show ?thesis
    by simp
qed

theorem status_code_registry_witness:
  "get_error \<lparr>status_code = 200, text = ''fine'', headers = [], json = None\<rparr> =
     Inr \<lparr>err_class = HTTPError,
          err_response = \<lparr>status_code = 200, text = ''fine'', headers = [], json = None\<rparr>,
          err_status_code = 200,
          err_message = ''HTTP status code: 200'' @ [NL] @
            ''Message: The following error was received: fine''\<rparr> \<and>
   (200::int) \<notin> {400, 401, 403, 404, 409, 422, 429, 500, 502, 503} \<and>
   select_class 200 = HTTPError \<and>
   err_class \<lparr>err_class = HTTPError,
          err_response = \<lparr>status_code = 200, text = ''fine'', headers = [], json = None\<rparr>,
          err_status_code = 200,
          err_message = ''HTTP status code: 200'' @ [NL] @
            ''Message: The following error was received: fine''\<rparr> =
     select_class
       (status_code \<lparr>status_code = 200, text = ''fine'', headers = [], json = None\<rparr>)"
proof -
  let ?r = "\<lparr>status_code = 200, text = ''fine'', headers = [], json = None\<rparr>"
  let ?e = "\<lparr>err_class = HTTPError, err_response = ?r, err_status_code = 200,
      err_message = ''HTTP status code: 200'' @ [NL] @
        ''Message: The following error was received: fine''\<rparr>"
  have run: "get_error ?r = Inr ?e"
    by code_simp
  have out: "(200::int) \<notin> {400, 401, 403, 404, 409, 422, 429, 500, 502, 503}"
    by simp
  note registry = status_code_registry [of 200 ?r ?e]
  from registry out have other: "select_class 200 = HTTPError"
    by blast
  from registry run have "err_class ?e = select_class (status_code ?r)"
    by blast
  with run out other show ?thesis
    by blast
qed

subsection \<open>A body that does not parse\<close>




subsection \<open>The rate-limit header\<close>

text \<open>
  Claim C5. For a 429 response whose body did not parse or parsed to a mapping,
  and whose rate-limit header holds \<open>5\<close> or is absent, \<open>get_error\<close> returns an
  error object. For a 429 response for which \<open>get_error\<close> returns an error object,
  the object is a \<open>RateLimitExceededError\<close>. When the headers hold the value \<open>5\<close>
  under \<open>x-contentful-ratelimit-reset\<close> (in any letter case), \<open>reset_time\<close> is the
  integer 5 and the message ends with the line \<open>Time until reset (seconds): 5\<close>.
  When the header is absent, \<open>reset_time\<close> has no value (the call raises KeyError)
  and the message is the join of the lines the \<open>try\<close> statement left: nothing is
  appended to them.
\<close>

theorem rate_limit_reset_time:
  assumes "status_code r = 429"
  shows "((json r = None \<or> (\<exists>kvs. json r = Some (VDict kvs))) \<and>
          (headers_get (headers r) RATE_LIMIT_RESET_HEADER_KEY = Some ''5'' \<or>
           headers_get (headers r) RATE_LIMIT_RESET_HEADER_KEY = None) \<longrightarrow>
            (\<exists>e. get_error r = Inr e)) \<and>
    (\<forall>e. get_error r = Inr e \<longrightarrow>
       err_class e = RateLimitExceededError \<and>
       (headers_get (headers r) RATE_LIMIT_RESET_HEADER_KEY = Some ''5'' \<longrightarrow>
          reset_time e = Inr 5 \<and>
          (\<exists>before. err_message e = before @ [NL] @ ''Time until reset (seconds): 5'')) \<and>
       (headers_get (headers r) RATE_LIMIT_RESET_HEADER_KEY = None \<longrightarrow>
          reset_time e = Inl KeyError \<and>
          (\<exists>em. try_statement RateLimitExceededError r
                   [''HTTP status code: '' @ str_int (status_code r)] = Inr em \<and>
                err_message e = join [NL] em)))"
  using rate_limited_returns [OF assms] rate_limit_built [OF assms]
  by blast

theorem rate_limit_reset_time_witness:
  "get_error \<lparr>status_code = 429, text = ''{}'',
      headers = [(''X-Contentful-RateLimit-Reset'', ''5'')], json = Some (VDict [])\<rparr> =
     Inr \<lparr>err_class = RateLimitExceededError,
          err_response = \<lparr>status_code = 429, text = ''{}'',
            headers = [(''X-Contentful-RateLimit-Reset'', ''5'')], json = Some (VDict [])\<rparr>,
          err_status_code = 429,
          err_message = ''HTTP status code: 429'' @ [NL] @
            ''Message: Rate limit exceeded. Too many requests.'' @ [NL] @
            ''Time until reset (seconds): 5''\<rparr> \<and>
   reset_time \<lparr>err_class = RateLimitExceededError,
          err_response = \<lparr>status_code = 429, text = ''{}'',
            headers = [(''X-Contentful-RateLimit-Reset'', ''5'')], json = Some (VDict [])\<rparr>,
          err_status_code = 429,
          err_message = ''HTTP status code: 429'' @ [NL] @
            ''Message: Rate limit exceeded. Too many requests.'' @ [NL] @
            ''Time until reset (seconds): 5''\<rparr> = Inr 5 \<and>
   get_error \<lparr>status_code = 429, text = ''{}'', headers = [(''Date'', ''today'')],
      json = Some (VDict [])\<rparr> =
     Inr \<lparr>err_class = RateLimitExceededError,
          err_response = \<lparr>status_code = 429, text = ''{}'', headers = [(''Date'', ''today'')],
            json = Some (VDict [])\<rparr>,
          err_status_code = 429,
          err_message = ''HTTP status code: 429'' @ [NL] @
            ''Message: Rate limit exceeded. Too many requests.''\<rparr> \<and>
   reset_time \<lparr>err_class = RateLimitExceededError,
          err_response = \<lparr>status_code = 429, text = ''{}'', headers = [(''Date'', ''today'')],
            json = Some (VDict [])\<rparr>,
          err_status_code = 429,
          err_message = ''HTTP status code: 429'' @ [NL] @
            ''Message: Rate limit exceeded. Too many requests.''\<rparr> = Inl KeyError"
proof -
  let ?r = "\<lparr>status_code = 429, text = ''{}'',
      headers = [(''X-Contentful-RateLimit-Reset'', ''5'')], json = Some (VDict [])\<rparr>"
  let ?e = "\<lparr>err_class = RateLimitExceededError, err_response = ?r, err_status_code = 429,
      err_message = ''HTTP status code: 429'' @ [NL] @
        ''Message: Rate limit exceeded. Too many requests.'' @ [NL] @
        ''Time until reset (seconds): 5''\<rparr>"
  let ?r' = "\<lparr>status_code = 429, text = ''{}'', headers = [(''Date'', ''today'')],
      json = Some (VDict [])\<rparr>"
  let ?e' = "\<lparr>err_class = RateLimitExceededError, err_response = ?r', err_status_code = 429,
      err_message = ''HTTP status code: 429'' @ [NL] @
        ''Message: Rate limit exceeded. Too many requests.''\<rparr>"
  have code: "status_code ?r = 429" "status_code ?r' = 429"
    by simp_all
  have run: "get_error ?r = Inr ?e" "get_error ?r' = Inr ?e'"
    by code_simp+
  have hdr: "headers_get (headers ?r) RATE_LIMIT_RESET_HEADER_KEY = Some ''5''"
    "headers_get (headers ?r') RATE_LIMIT_RESET_HEADER_KEY = None"
    by code_simp+
  from rate_limit_reset_time [OF code(1)] run(1) hdr(1) have present: "reset_time ?e = Inr 5"
    by blast
  from rate_limit_reset_time [OF code(2)] run(2) hdr(2) have absent: "reset_time ?e' = Inl KeyError"
    by blast
  from run present absent show ?thesis
    by blast
qed

subsection \<open>The details of a 404 response\<close>

text \<open>
  Claim C6, as the claim states it, fails: for details that are a mapping without
  the key \<open>type\<close> there is no Details text, since \<open>details['type']\<close> raises
  KeyError and with it \<open>get_error\<close>.
\<close>

theorem not_found_missing_type_counterexample:
  "get_error \<lparr>status_code = 404, text = ''{...}'', headers = [],
      json = Some (VDict [(''details'', VDict [(''id'', VStr ''abc'')])])\<rparr> = Inl KeyError"
  by code_simp

text \<open>
  Claim C6, amended. For a 404 response whose body parsed to a mapping with the
  details \<open>details\<close>: if \<open>details\<close> is a string, it is the Details text
  unchanged; if \<open>details\<close> is a mapping with the key \<open>type\<close>, the Details text is
  \<open>The requested {type} could not be found.\<close>, followed by \<open> ID: {id}.\<close> when
  the mapping has the key \<open>id\<close> with a value other than \<open>None\<close>.
\<close>

theorem not_found_details:
  assumes "status_code r = 404" and "json r = Some (VDict kvs)"
    and "map_of kvs ''details'' = Some details"
  shows "(details = VStr s \<longrightarrow>
      get_error r =
        Inr \<lparr>err_class = NotFoundError, err_response = r, err_status_code = 404,
             err_message = message_with_details NotFoundError r kvs s\<rparr>) \<and>
    (details = VDict d \<and> map_of d ''type'' = Some ty \<longrightarrow>
      get_error r =
        Inr \<lparr>err_class = NotFoundError, err_response = r, err_status_code = 404,
             err_message = message_with_details NotFoundError r kvs
               (''The requested '' @ py_str ty @ '' could not be found.'' @
                (case map_of d ''id'' of
                   None \<Rightarrow> []
                 | Some resource_id \<Rightarrow>
                     if resource_id \<noteq> VNone then '' ID: '' @ py_str resource_id @ ''.''
                     else []))\<rparr>)"
proof -
  have string: "handle_details (select_class (status_code r)) r (VStr s) = Inr s"
    using assms(1)
    by (simp add: select_class_cases NotFoundError_handle_details_def string_class_def py_str_def)
  have mapping: "handle_details (select_class (status_code r)) r (VDict d) =
      Inr (''The requested '' @ py_str ty @ '' could not be found.'' @
           (case map_of d ''id'' of
              None \<Rightarrow> []
            | Some resource_id \<Rightarrow>
                if resource_id \<noteq> VNone then '' ID: '' @ py_str resource_id @ ''.'' else []))"
    if "map_of d ''type'' = Some ty"
    using assms(1) that
    by (simp add: select_class_cases NotFoundError_handle_details_def string_class_def
        py_getitem_def py_get_def bindE_def split: option.splits)
  from assms get_error_details_message [of r kvs details] string mapping show ?thesis
    by (auto simp: select_class_cases)
qed

theorem not_found_details_witness:
  "get_error \<lparr>status_code = 404, text = ''{...}'', headers = [],
      json = Some (VDict [(''details'',
        VDict [(''type'', VStr ''Entry''), (''id'', VStr ''abc'')])])\<rparr> =
     Inr \<lparr>err_class = NotFoundError,
          err_response = \<lparr>status_code = 404, text = ''{...}'', headers = [],
            json = Some (VDict [(''details'',
              VDict [(''type'', VStr ''Entry''), (''id'', VStr ''abc'')])])\<rparr>,
          err_status_code = 404,
          err_message = ''HTTP status code: 404'' @ [NL] @
            ''Message: The requested resource or endpoint could not be found.'' @ [NL] @
            ''Details: The requested Entry could not be found. ID: abc.''\<rparr> \<and>
   get_error \<lparr>status_code = 404, text = ''{...}'', headers = [],
      json = Some (VDict [(''message'', VStr ''Gone''), (''details'', VStr ''No such entry''),
        (''requestId'', VStr ''r-1'')])\<rparr> =
     Inr \<lparr>err_class = NotFoundError,
          err_response = \<lparr>status_code = 404, text = ''{...}'', headers = [],
            json = Some (VDict [(''message'', VStr ''Gone''), (''details'', VStr ''No such entry''),
              (''requestId'', VStr ''r-1'')])\<rparr>,
          err_status_code = 404,
          err_message = ''HTTP status code: 404'' @ [NL] @ ''Message: Gone'' @ [NL] @
            ''Details: No such entry'' @ [NL] @ ''Request ID: r-1''\<rparr>"
proof -
  have "str_int 404 = ''404''"
    by code_simp
  with not_found_details
    [of "\<lparr>status_code = 404, text = ''{...}'', headers = [],
          json = Some (VDict [(''details'',
            VDict [(''type'', VStr ''Entry''), (''id'', VStr ''abc'')])])\<rparr>"
        "[(''details'', VDict [(''type'', VStr ''Entry''), (''id'', VStr ''abc'')])]"
        "VDict [(''type'', VStr ''Entry''), (''id'', VStr ''abc'')]"
        _ "[(''type'', VStr ''Entry''), (''id'', VStr ''abc'')]" "VStr ''Entry''"]
    not_found_details
    [of "\<lparr>status_code = 404, text = ''{...}'', headers = [],
          json = Some (VDict [(''message'', VStr ''Gone''), (''details'', VStr ''No such entry''),
            (''requestId'', VStr ''r-1'')])\<rparr>"
        "[(''message'', VStr ''Gone''), (''details'', VStr ''No such entry''),
          (''requestId'', VStr ''r-1'')]"
        "VStr ''No such entry''" "''No such entry''"]
  show ?thesis
    by (simp add: message_with_details_def message_text_def request_id_lines_def py_str_def)
qed

subsection \<open>The details of a 400 response\<close>

text \<open>
  Claim C7, as the claim states it, fails, at two places. An entry of \<open>errors\<close>
  that is a string has no \<open>details\<close> sub-field, yet it is not skipped:
  \<open>_handle_detail\<close> returns it as it is, so the list with the one entry \<open>abc\<close>
  gives the Details text \<open>abc\<close>. And details that are the number 5 are neither a
  string nor a mapping, yet they are not stringified: \<open>'errors' in details\<close>
  raises TypeError before the last \<open>return\<close> is reached.
\<close>

theorem bad_request_counterexample:
  "get_error \<lparr>status_code = 400, text = ''{...}'', headers = [],
      json = Some (VDict [(''details'', VDict [(''errors'', VList [VStr ''abc''])])])\<rparr> =
     Inr \<lparr>err_class = BadRequestError,
          err_response = \<lparr>status_code = 400, text = ''{...}'', headers = [],
            json = Some (VDict [(''details'', VDict [(''errors'', VList [VStr ''abc''])])])\<rparr>,
          err_status_code = 400,
          err_message = ''HTTP status code: 400'' @ [NL] @
            ''Message: The request was malformed or missing a required parameter.'' @ [NL] @
            ''Details: abc''\<rparr> \<and>
   get_error \<lparr>status_code = 400, text = ''{...}'', headers = [],
      json = Some (VDict [(''details'', VInt 5)])\<rparr> = Inl TypeError"
  by code_simp

text \<open>
  Claim C7, amended. For a 400 response whose body parsed to a mapping with the
  details \<open>details\<close>: if \<open>details\<close> is a string, it is the Details text
  unchanged; if \<open>details\<close> is a mapping whose key \<open>errors\<close> holds a list of
  strings and of mappings whose \<open>details\<close> sub-field is absent, \<open>None\<close> or a
  string, the Details text is the texts of the entries joined with newline and
  tab, where a string entry gives itself, a mapping gives its \<open>details\<close>
  sub-field, and a mapping with no such sub-field, or with \<open>None\<close> there, is
  skipped; if \<open>details\<close> is a mapping without the key \<open>errors\<close>, the Details text
  is \<open>str(details)\<close>.
\<close>

theorem bad_request_details:
  assumes "status_code r = 400" and "json r = Some (VDict kvs)"
    and "map_of kvs ''details'' = Some details"
  shows "(details = VStr s \<longrightarrow>
      get_error r =
        Inr \<lparr>err_class = BadRequestError, err_response = r, err_status_code = 400,
             err_message = message_with_details BadRequestError r kvs s\<rparr>) \<and>
    (details = VDict d \<and> map_of d ''errors'' = Some (VList es) \<and>
     spec_detail_texts es = Some ts \<longrightarrow>
      get_error r =
        Inr \<lparr>err_class = BadRequestError, err_response = r, err_status_code = 400,
             err_message = message_with_details BadRequestError r kvs (join [NL, TAB] ts)\<rparr>) \<and>
    (details = VDict d \<and> map_of d ''errors'' = None \<longrightarrow>
      get_error r =
        Inr \<lparr>err_class = BadRequestError, err_response = r, err_status_code = 400,
             err_message = message_with_details BadRequestError r kvs (py_str details)\<rparr>)"
proof -
  have string: "handle_details (select_class (status_code r)) r (VStr s) = Inr s"
    using assms(1)
    by (simp add: select_class_cases BadRequestError_handle_details_def string_class_def py_str_def)
  have listed: "handle_details (select_class (status_code r)) r (VDict d) = Inr (join [NL, TAB] ts)"
    if "map_of d ''errors'' = Some (VList es)" and "spec_detail_texts es = Some ts"
  proof -
    from mapE_handle_detail [OF that(2)] obtain inner
      where "mapE handle_detail es = Inr inner"
        and "as_strings (filter (\<lambda>detail. detail \<noteq> VNone) inner) = Some ts"
      by blast
    with assms(1) that(1) show ?thesis
      by (simp add: select_class_cases BadRequestError_handle_details_def string_class_def
          py_contains_mapping py_getitem_def py_iter_def py_join_def bindE_def)
  qed
  have plain: "handle_details (select_class (status_code r)) r (VDict d) = Inr (py_str (VDict d))"
    if "map_of d ''errors'' = None"
    using assms(1) that
    by (simp add: select_class_cases BadRequestError_handle_details_def string_class_def
        py_contains_mapping bindE_def)
  from assms get_error_details_message [of r kvs details] string listed plain show ?thesis
    by (auto simp: select_class_cases)
qed

theorem bad_request_details_witness:
  "get_error \<lparr>status_code = 400, text = ''{...}'', headers = [],
      json = Some (VDict [(''details'', VDict [(''errors'',
        VList [VDict [(''details'', VStr ''first'')], VDict [(''name'', VStr ''n'')],
               VStr ''second''])])])\<rparr> =
     Inr \<lparr>err_class = BadRequestError,
          err_response = \<lparr>status_code = 400, text = ''{...}'', headers = [],
            json = Some (VDict [(''details'', VDict [(''errors'',
              VList [VDict [(''details'', VStr ''first'')], VDict [(''name'', VStr ''n'')],
                     VStr ''second''])])])\<rparr>,
          err_status_code = 400,
          err_message = ''HTTP status code: 400'' @ [NL] @
            ''Message: The request was malformed or missing a required parameter.'' @ [NL] @
            ''Details: first'' @ [NL, TAB] @ ''second''\<rparr> \<and>
   get_error \<lparr>status_code = 400, text = ''{...}'', headers = [],
      json = Some (VDict [(''details'', VStr ''Bad query'')])\<rparr> =
     Inr \<lparr>err_class = BadRequestError,
          err_response = \<lparr>status_code = 400, text = ''{...}'', headers = [],
            json = Some (VDict [(''details'', VStr ''Bad query'')])\<rparr>,
          err_status_code = 400,
          err_message = ''HTTP status code: 400'' @ [NL] @
            ''Message: The request was malformed or missing a required parameter.'' @ [NL] @
            ''Details: Bad query''\<rparr> \<and>
   get_error \<lparr>status_code = 400, text = ''{...}'', headers = [],
      json = Some (VDict [(''details'', VDict [(''limit'', VInt 2000)])])\<rparr> =
     Inr \<lparr>err_class = BadRequestError,
          err_response = \<lparr>status_code = 400, text = ''{...}'', headers = [],
            json = Some (VDict [(''details'', VDict [(''limit'', VInt 2000)])])\<rparr>,
          err_status_code = 400,
          err_message = ''HTTP status code: 400'' @ [NL] @
            ''Message: The request was malformed or missing a required parameter.'' @ [NL] @
            ''Details: {'limit': 2000}''\<rparr>"
proof -
  have evaluated: "str_int 400 = ''400''" "py_str (VDict [(''limit'', VInt 2000)]) = ''{'limit': 2000}''"
    by code_simp+
  with bad_request_details
    [of "\<lparr>status_code = 400, text = ''{...}'', headers = [],
          json = Some (VDict [(''details'', VDict [(''errors'',
            VList [VDict [(''details'', VStr ''first'')], VDict [(''name'', VStr ''n'')],
                   VStr ''second''])])])\<rparr>"
        "[(''details'', VDict [(''errors'',
            VList [VDict [(''details'', VStr ''first'')], VDict [(''name'', VStr ''n'')],
                   VStr ''second''])])]"
        "VDict [(''errors'',
            VList [VDict [(''details'', VStr ''first'')], VDict [(''name'', VStr ''n'')],
                   VStr ''second''])]"
        _
        "[(''errors'',
            VList [VDict [(''details'', VStr ''first'')], VDict [(''name'', VStr ''n'')],
                   VStr ''second''])]"
        "[VDict [(''details'', VStr ''first'')], VDict [(''name'', VStr ''n'')], VStr ''second'']"
        "[''first'', ''second'']"]
    bad_request_details
    [of "\<lparr>status_code = 400, text = ''{...}'', headers = [],
          json = Some (VDict [(''details'', VStr ''Bad query'')])\<rparr>"
        "[(''details'', VStr ''Bad query'')]" "VStr ''Bad query''" "''Bad query''"]
    bad_request_details
    [of "\<lparr>status_code = 400, text = ''{...}'', headers = [],
          json = Some (VDict [(''details'', VDict [(''limit'', VInt 2000)])])\<rparr>"
        "[(''details'', VDict [(''limit'', VInt 2000)])]" "VDict [(''limit'', VInt 2000)]"
        _ "[(''limit'', VInt 2000)]"]
  show ?thesis
    by (simp add: message_with_details_def message_text_def request_id_lines_def)
qed

subsection \<open>The details of a 422 response\<close>

text \<open>
  Claim C8, as the claim states it, fails: an \<open>errors\<close> list with the entry 5
  gives no Details text with the default message for that entry, since
  \<open>'name' in error\<close> raises TypeError and with it \<open>get_error\<close>.
\<close>

theorem unprocessable_entity_counterexample:
  "get_error \<lparr>status_code = 422, text = ''{...}'', headers = [],
      json = Some (VDict [(''details'', VDict [(''errors'', VList [VInt 5])])])\<rparr> = Inl TypeError"
  by code_simp

text \<open>
  Claim C8, amended. For a 422 response whose body parsed to a mapping, whose
  details are a mapping, and whose \<open>errors\<close> are a list of mappings, the Details
  text is a newline followed by the lines of the entries joined with newline. The
  line of an entry is \<open>\t* Name: {name} - Path: '{path}'\<close> when the entry has both
  keys \<open>name\<close> and \<open>path\<close> and the default message
  \<open>The resource you sent in the body is invalid.\<close> otherwise, and
  \<open> - Value: '{value}'\<close> is appended when the entry has the key \<open>value\<close>.
\<close>

theorem unprocessable_entity_details:
  assumes "status_code r = 422" and "json r = Some (VDict kvs)"
    and "map_of kvs ''details'' = Some (VDict d)"
    and "map_of d ''errors'' = Some (VList es)"
    and "mapping_entries es = Some fs"
  shows "get_error r =
     Inr \<lparr>err_class = UnprocessableEntityError, err_response = r, err_status_code = 422,
          err_message = join [NL]
            ([''HTTP status code: 422'',
              ''Message: '' @ message_text UnprocessableEntityError r kvs,
              ''Details: '' @ [NL] @ join [NL] (map spec_error_line fs)] @
             request_id_lines kvs)\<rparr>"
proof -
  have "str_int 422 = ''422''"
    by code_simp
  moreover from assms
  have "handle_details (select_class (status_code r)) r (VDict d) =
      Inr ([NL] @ join [NL] (map spec_error_line fs))"
    by (simp add: select_class_cases UnprocessableEntityError_handle_details_def py_getitem_def
        py_iter_def bindE_def mapE_handle_error)
  ultimately show ?thesis
    using get_error_details_text [OF assms(2) assms(3)] assms(1)
    by (simp add: select_class_cases)
qed

theorem unprocessable_entity_details_witness:
  "get_error \<lparr>status_code = 422, text = ''{...}'', headers = [],
      json = Some (VDict [(''details'', VDict [(''errors'',
        VList [VDict [(''name'', VStr ''title''), (''path'', VStr ''fields.title''),
                      (''value'', VStr ''x'')]])])])\<rparr> =
     Inr \<lparr>err_class = UnprocessableEntityError,
          err_response = \<lparr>status_code = 422, text = ''{...}'', headers = [],
            json = Some (VDict [(''details'', VDict [(''errors'',
              VList [VDict [(''name'', VStr ''title''), (''path'', VStr ''fields.title''),
                            (''value'', VStr ''x'')]])])])\<rparr>,
          err_status_code = 422,
          err_message = ''HTTP status code: 422'' @ [NL] @
            ''Message: The resource you sent in the body is invalid.'' @ [NL] @
            ''Details: '' @ [NL, TAB] @
            ''* Name: title - Path: 'fields.title' - Value: 'x'' @ [SQ]\<rparr>"
  using unprocessable_entity_details
    [of "\<lparr>status_code = 422, text = ''{...}'', headers = [],
          json = Some (VDict [(''details'', VDict [(''errors'',
            VList [VDict [(''name'', VStr ''title''), (''path'', VStr ''fields.title''),
                          (''value'', VStr ''x'')]])])])\<rparr>"
        "[(''details'', VDict [(''errors'',
            VList [VDict [(''name'', VStr ''title''), (''path'', VStr ''fields.title''),
                          (''value'', VStr ''x'')]])])]"
        "[(''errors'',
            VList [VDict [(''name'', VStr ''title''), (''path'', VStr ''fields.title''),
                          (''value'', VStr ''x'')]])]"
        "[VDict [(''name'', VStr ''title''), (''path'', VStr ''fields.title''),
                 (''value'', VStr ''x'')]]"
        "[[(''name'', VStr ''title''), (''path'', VStr ''fields.title''), (''value'', VStr ''x'')]]"]
  by (simp add: message_text_def request_id_lines_def spec_error_line_def py_str_def)

subsection \<open>Classification is a function of what it reads\<close>



subsection \<open>A parsed body that is not a mapping\<close>

text \<open>
  Claim C10. When the body parses but the parsed value is not a mapping (a list, a
  number, a string, a bool, \<open>None\<close>), the first \<open>.get\<close> in the \<open>try\<close> block raises
  AttributeError; the handler only takes the JSON parse error, so the exception
  leaves the constructor and \<open>get_error\<close> returns no error object.
\<close>

theorem non_mapping_body_raises:
  assumes "json r = Some v" and "\<forall>kvs. v \<noteq> VDict kvs"
  shows "get_error r = Inl AttributeError"
  using assms
  by (simp add: get_error_def init_def best_available_message_def
      try_statement_non_mapping bindE_def)

theorem non_mapping_body_raises_witness:
  "json \<lparr>status_code = 500, text = ''[1, 2]'', headers = [],
      json = Some (VList [VInt 1, VInt 2])\<rparr> = Some (VList [VInt 1, VInt 2]) \<and>
   (\<forall>kvs. VList [VInt 1, VInt 2] \<noteq> VDict kvs) \<and>
   get_error \<lparr>status_code = 500, text = ''[1, 2]'', headers = [],
      json = Some (VList [VInt 1, VInt 2])\<rparr> = Inl AttributeError"
  using non_mapping_body_raises
    [of "\<lparr>status_code = 500, text = ''[1, 2]'', headers = [],
          json = Some (VList [VInt 1, VInt 2])\<rparr>" "VList [VInt 1, VInt 2]"]
  by simp

end
